theory Spec2Isabelle
  imports Main
begin

unbundle bit_operations_syntax

section \<open>Python values used by \<open>ls8/cpu.py\<close>\<close>

text \<open>
  The exceptions the module can raise: an out-of-range list index, a missing dictionary
  key (carrying the key), the explicit \<open>raise Exception(msg)\<close> of the ALU and
  \<open>sys.exit(code)\<close>.
\<close>

datatype error = IndexError | KeyError int | Exception string | SystemExit int

text \<open>Sequencing of statements that may raise: the first exception ends the handler.\<close>

fun ebind :: "error + 'a \<Rightarrow> ('a \<Rightarrow> error + 'b) \<Rightarrow> error + 'b" where
  "ebind (Inl e) f = Inl e"
| "ebind (Inr v) f = f v"

text \<open>
  Python list indexing with an integer: \<open>0 \<le> i < len\<close> addresses cell \<open>i\<close>,
  \<open>-len \<le> i < 0\<close> addresses cell \<open>len + i\<close>, anything else raises IndexError.
\<close>

definition py_index :: "'a list \<Rightarrow> int \<Rightarrow> nat option" where
  "py_index xs i =
     (if 0 \<le> i \<and> i < int (length xs) then Some (nat i)
      else if - int (length xs) \<le> i \<and> i < 0 then Some (nat (int (length xs) + i))
      else None)"

definition getitem :: "'a list \<Rightarrow> int \<Rightarrow> error + 'a" where
  "getitem xs i = (case py_index xs i of None \<Rightarrow> Inl IndexError | Some k \<Rightarrow> Inr (xs ! k))"

definition setitem :: "'a list \<Rightarrow> int \<Rightarrow> 'a \<Rightarrow> error + 'a list" where
  "setitem xs i v =
     (case py_index xs i of None \<Rightarrow> Inl IndexError | Some k \<Rightarrow> Inr (xs[k := v]))"

text \<open>\<open>str\<close> of an integer, as \<open>print\<close> and f-strings format it.\<close>

fun str_nat :: "nat \<Rightarrow> string" where
  "str_nat n =
     (if n < 10 then [''0123456789'' ! n]
      else str_nat (n div 10) @ [''0123456789'' ! (n mod 10)])"

declare str_nat.simps [simp del]

definition str_int :: "int \<Rightarrow> string" where
  "str_int i = (if i < 0 then CHR ''-'' # str_nat (nat (- i)) else str_nat (nat i))"

section \<open>Op codes\<close>

definition LDI :: int where "LDI = 130"
definition PRN :: int where "PRN = 71"
definition MUL :: int where "MUL = 162"
definition HLT :: int where "HLT = 1"
definition PUSH :: int where "PUSH = 69"
definition POP :: int where "POP = 70"
definition CALL :: int where "CALL = 80"
definition RET :: int where "RET = 17"
definition ADD :: int where "ADD = 160"
definition CMP :: int where "CMP = 167"
definition JMP :: int where "JMP = 84"
definition JEQ :: int where "JEQ = 85"
definition JNE :: int where "JNE = 86"

section \<open>The machine state\<close>

text \<open>
  The attributes of a \<open>CPU\<close> object. Memory cells and registers hold Python integers,
  which are unbounded; \<open>stdout\<close> collects the lines written by \<open>print\<close>, oldest first.
  The branch table is built once by the constructor and never changed, so it is the
  constant \<open>branchtable\<close> below.
\<close>

record cpu =
  running :: bool
  ram :: "int list"
  reg :: "int list"
  PC :: int
  SP :: int
  FL :: int
  stdout :: "string list"

definition init :: cpu where
  "init =
     (let ram0 = replicate 256 (0::int);
          reg0 = replicate 8 (0::int);
          sp = int (length reg0) - 1
      in \<lparr> running = True, ram = ram0,
           reg = reg0[nat sp := int (length ram0) - 1],
           PC = 0, SP = sp, FL = 0, stdout = [] \<rparr>)"

definition print :: "string \<Rightarrow> cpu \<Rightarrow> cpu" where
  "print line s = s\<lparr>stdout := stdout s @ [line]\<rparr>"

definition ram_read :: "cpu \<Rightarrow> int \<Rightarrow> error + int" where
  "ram_read s MAR = getitem (ram s) MAR"

definition ram_write :: "cpu \<Rightarrow> int \<Rightarrow> int \<Rightarrow> error + cpu" where
  "ram_write s MAR MDR = ebind (setitem (ram s) MAR MDR) (\<lambda>ram'. Inr (s\<lparr>ram := ram'\<rparr>))"

section \<open>The ALU\<close>

definition alu :: "string \<Rightarrow> int \<Rightarrow> int \<Rightarrow> cpu \<Rightarrow> error + cpu" where
  "alu op reg_a reg_b s =
     (if op = ''ADD'' then
        ebind (getitem (reg s) reg_a) (\<lambda>a.
        ebind (getitem (reg s) reg_b) (\<lambda>b.
        ebind (setitem (reg s) reg_a (a + b)) (\<lambda>reg'.
        Inr (s\<lparr>reg := reg'\<rparr>))))
      else if op = ''CMP'' then
        ebind (getitem (reg s) reg_a) (\<lambda>a.
        ebind (getitem (reg s) reg_b) (\<lambda>b.
        if a = b then Inr (s\<lparr>FL := 1\<rparr>) else Inr s))
      else Inl (Exception ''Unsupported ALU operation''))"

section \<open>Instruction handlers\<close>

definition ldi :: "cpu \<Rightarrow> error + cpu" where
  "ldi s =
     ebind (ram_read s (PC s + 1)) (\<lambda>operand_a.
     ebind (ram_read s (PC s + 2)) (\<lambda>operand_b.
     ebind (setitem (reg s) operand_a operand_b) (\<lambda>reg'.
     Inr (s\<lparr>reg := reg', PC := PC s + 3\<rparr>))))"

definition prn :: "cpu \<Rightarrow> error + cpu" where
  "prn s =
     ebind (ram_read s (PC s + 1)) (\<lambda>print_val.
     ebind (getitem (reg s) print_val) (\<lambda>v.
     Inr ((print (str_int v) s)\<lparr>PC := PC s + 2\<rparr>)))"

definition mul :: "cpu \<Rightarrow> error + cpu" where
  "mul s =
     ebind (ram_read s (PC s + 1)) (\<lambda>operand_a.
     ebind (ram_read s (PC s + 2)) (\<lambda>operand_b.
     ebind (getitem (reg s) operand_a) (\<lambda>a.
     ebind (getitem (reg s) operand_b) (\<lambda>b.
     let s1 = print (str_int a @ '' * '' @ str_int b @ '' ='') s in
     ebind (getitem (reg s1) operand_a) (\<lambda>a'.
     ebind (getitem (reg s1) operand_b) (\<lambda>b'.
     ebind (setitem (reg s1) operand_a (a' * b')) (\<lambda>reg'.
     Inr (s1\<lparr>reg := reg', PC := PC s1 + 3\<rparr>))))))))"

definition hlt :: "cpu \<Rightarrow> error + cpu" where
  "hlt s = Inr (s\<lparr>running := False, PC := PC s + 1\<rparr>)"

definition push :: "cpu \<Rightarrow> error + cpu" where
  "push s =
     ebind (getitem (ram s) (PC s + 1)) (\<lambda>register.
     ebind (getitem (reg s) (SP s)) (\<lambda>sp.
     ebind (setitem (reg s) (SP s) (sp - 1)) (\<lambda>reg1.
     ebind (getitem reg1 register) (\<lambda>reg_value.
     ebind (getitem reg1 (SP s)) (\<lambda>top.
     ebind (setitem (ram s) top reg_value) (\<lambda>ram'.
     Inr (s\<lparr>ram := ram', reg := reg1, PC := PC s + 2\<rparr>)))))))"

definition pop :: "cpu \<Rightarrow> error + cpu" where
  "pop s =
     ebind (getitem (reg s) (SP s)) (\<lambda>top.
     ebind (getitem (ram s) top) (\<lambda>v.
     ebind (getitem (ram s) (PC s + 1)) (\<lambda>register.
     ebind (setitem (reg s) register v) (\<lambda>reg1.
     ebind (getitem reg1 (SP s)) (\<lambda>sp.
     ebind (setitem reg1 (SP s) (sp + 1)) (\<lambda>reg2.
     Inr (s\<lparr>reg := reg2, PC := PC s + 2\<rparr>)))))))"

definition call :: "cpu \<Rightarrow> error + cpu" where
  "call s =
     ebind (getitem (reg s) (SP s)) (\<lambda>sp.
     ebind (setitem (reg s) (SP s) (sp - 1)) (\<lambda>reg1.
     ebind (getitem reg1 (SP s)) (\<lambda>top.
     ebind (setitem (ram s) top (PC s + 2)) (\<lambda>ram1.
     ebind (getitem ram1 (PC s + 1)) (\<lambda>register.
     ebind (getitem reg1 register) (\<lambda>target.
     Inr (s\<lparr>ram := ram1, reg := reg1, PC := target\<rparr>)))))))"

definition ret :: "cpu \<Rightarrow> error + cpu" where
  "ret s =
     ebind (getitem (reg s) (SP s)) (\<lambda>top.
     ebind (getitem (ram s) top) (\<lambda>return_address.
     ebind (setitem (reg s) (SP s) (top + 1)) (\<lambda>reg1.
     Inr (s\<lparr>reg := reg1, PC := return_address\<rparr>))))"

definition add :: "cpu \<Rightarrow> error + cpu" where
  "add s =
     ebind (getitem (ram s) (PC s + 1)) (\<lambda>reg1.
     ebind (getitem (ram s) (PC s + 2)) (\<lambda>reg2.
     ebind (alu ''ADD'' reg1 reg2 s) (\<lambda>s1.
     Inr (s1\<lparr>PC := PC s1 + 3\<rparr>))))"

definition compare :: "cpu \<Rightarrow> error + cpu" where
  "compare s =
     ebind (getitem (ram s) (PC s + 1)) (\<lambda>reg1.
     ebind (getitem (ram s) (PC s + 2)) (\<lambda>reg2.
     ebind (alu ''CMP'' reg1 reg2 s) (\<lambda>s1.
     Inr (s1\<lparr>PC := PC s1 + 3\<rparr>))))"

definition jmp :: "cpu \<Rightarrow> error + cpu" where
  "jmp s =
     ebind (getitem (ram s) (PC s + 1)) (\<lambda>register.
     ebind (getitem (reg s) register) (\<lambda>target.
     Inr (s\<lparr>PC := target\<rparr>)))"

definition jeq :: "cpu \<Rightarrow> error + cpu" where
  "jeq s =
     ebind (getitem (ram s) (PC s + 1)) (\<lambda>register.
     if FL s AND 1 = 1 then
       ebind (getitem (reg s) register) (\<lambda>target. Inr (s\<lparr>PC := target\<rparr>))
     else Inr (s\<lparr>PC := PC s + 2\<rparr>))"

definition jne :: "cpu \<Rightarrow> error + cpu" where
  "jne s =
     ebind (getitem (ram s) (PC s + 1)) (\<lambda>register.
     if FL s AND 1 = 0 then
       ebind (getitem (reg s) register) (\<lambda>target. Inr (s\<lparr>PC := target\<rparr>))
     else Inr (s\<lparr>PC := PC s + 2\<rparr>))"

section \<open>Loading and running\<close>

text \<open>
  \<open>load\<close> prints the file name and stores the instruction of every code line at
  consecutive addresses from 0. The check of the command line and the reading and
  parsing of the file are not modelled: \<open>filename\<close> is \<open>sys.argv[1]\<close> and the
  argument \<open>instructions\<close> is the list of the integers \<open>int(instruction, 2)\<close> of the
  lines that are neither empty nor comments, in file order.
\<close>

fun store_from :: "int \<Rightarrow> int list \<Rightarrow> int list \<Rightarrow> error + int list" where
  "store_from address [] mem = Inr mem"
| "store_from address (instruction_int # rest) mem =
     ebind (setitem mem address instruction_int) (\<lambda>mem'. store_from (address + 1) rest mem')"

definition load :: "string \<Rightarrow> int list \<Rightarrow> cpu \<Rightarrow> error + cpu" where
  "load filename instructions s =
     (let s1 = print (''Filename: '' @ filename) s in
      ebind (store_from 0 instructions (ram s1)) (\<lambda>ram'. Inr (s1\<lparr>ram := ram'\<rparr>)))"

text \<open>
  The dictionary built by the constructor. A lookup of a key that is absent raises
  KeyError; every stored value is a bound method, which Python treats as true.
\<close>

definition branchtable :: "int \<Rightarrow> (cpu \<Rightarrow> error + cpu) option" where
  "branchtable =
     map_of [(LDI, ldi), (PRN, prn), (MUL, mul), (HLT, hlt), (PUSH, push), (POP, pop),
             (CALL, call), (RET, ret), (ADD, add), (CMP, compare), (JMP, jmp), (JEQ, jeq),
             (JNE, jne)]"

definition truthy :: "(cpu \<Rightarrow> error + cpu) \<Rightarrow> bool" where
  "truthy h = True"

text \<open>
  One pass through the body of the \<open>while\<close> loop of \<open>run\<close>. A raised exception
  carries no machine state, so the line that the \<open>else\<close> branch prints before
  \<open>sys.exit(1)\<close> is computed but not returned.
\<close>

definition step :: "cpu \<Rightarrow> error + cpu" where
  "step s =
     ebind (ram_read s (PC s)) (\<lambda>IR.
     case branchtable IR of
       None \<Rightarrow> Inl (KeyError IR)
     | Some h \<Rightarrow>
         if truthy h then h s
         else (let s1 = print (str_int IR @ '' - command is not available'') s
               in Inl (SystemExit 1)))"

text \<open>
  The loop of \<open>run\<close> need not end (a program may jump to itself), so \<open>run\<close> is a
  partial function: \<open>None\<close> is a loop that never returns, \<open>Some (Inl e)\<close> a run ended
  by the exception \<open>e\<close>, \<open>Some (Inr s)\<close> a run that left the loop in state \<open>s\<close>.
\<close>

partial_function (option) run :: "cpu \<Rightarrow> (error + cpu) option" where
  "run s =
     (if running s then
        (case step s of Inl e \<Rightarrow> Some (Inl e) | Inr s' \<Rightarrow> run s')
      else Some (Inr s))"

declare run.simps [code]

text \<open>
  The calling sequence of the machine: construct a \<open>CPU\<close>, \<open>load\<close> the program,
  \<open>run\<close> it. The first line of the output is the one \<open>load\<close> prints.
\<close>

definition run_program :: "string \<Rightarrow> int list \<Rightarrow> (error + cpu) option" where
  "run_program filename instructions =
     (case load filename instructions init of Inl e \<Rightarrow> Some (Inl e) | Inr s \<Rightarrow> run s)"

text \<open>
  The shape every \<open>CPU\<close> object has from its construction on: 256 memory cells, 8
  registers, and the stack-pointer attribute naming register 7. No handler changes the
  length of a list or assigns \<open>SP\<close>.
\<close>

definition wf_cpu :: "cpu \<Rightarrow> bool" where
  "wf_cpu s = (length (ram s) = 256 \<and> length (reg s) = 8 \<and> SP s = 7)"

section \<open>Sample programs\<close>

text \<open>
  Machine states reached by running the first instructions of small programs; the
  theorems below are exercised on them. \<open>at_push\<close> is about to execute \<open>PUSH R0\<close>
  (followed by \<open>POP R0\<close>), \<open>at_call\<close> is about to execute \<open>CALL R1\<close> with a \<open>RET\<close> at
  the target, \<open>at_cmp_equal\<close> and \<open>at_cmp_unequal\<close> are about to execute the first and
  the second \<open>CMP R0,R1\<close> of one program, \<open>at_jeq_set\<close> and \<open>at_jeq_clear\<close> are at a
  conditional jump with the Equal flag set and clear, and \<open>at_jump\<close> has just executed
  \<open>JMP R0\<close> with 400 in \<open>R0\<close>.
\<close>

definition at_push :: cpu where
  "at_push = projr (ebind (load ''stack.ls8'' [LDI, 0, 42, PUSH, 0, POP, 0, HLT] init) step)"

definition at_call :: cpu where
  "at_call = projr (ebind (load ''call.ls8'' [LDI, 1, 6, CALL, 1, HLT, RET] init) step)"

definition cmp_program :: "int list" where
  "cmp_program = [LDI, 0, 3, LDI, 1, 3, CMP, 0, 1, LDI, 1, 4, CMP, 0, 1, JEQ, 0, HLT]"

definition at_cmp_equal :: cpu where
  "at_cmp_equal = projr (ebind (ebind (load ''cmp.ls8'' cmp_program init) step) step)"

definition at_cmp_unequal :: cpu where
  "at_cmp_unequal = projr (ebind (ebind (Inr at_cmp_equal) step) step)"

definition at_jeq_set :: cpu where
  "at_jeq_set = projr (ebind (Inr at_cmp_unequal) step)"

definition at_jeq_clear :: cpu where
  "at_jeq_clear = projr (ebind (load ''jeq.ls8'' [LDI, 0, 9, JEQ, 0, HLT] init) step)"

definition at_jump :: cpu where
  "at_jump = projr (ebind (ebind (ebind (load ''jump.ls8''
       [LDI, 0, 200, ADD, 0, 0, JMP, 0] init) step) step) step)"

definition binop_program :: "int \<Rightarrow> nat \<Rightarrow> nat \<Rightarrow> int \<Rightarrow> int \<Rightarrow> int list" where
  "binop_program opc ra rb a b = [LDI, int ra, a, LDI, int rb, b, opc, int ra, int rb, HLT]"

section \<open>Basic facts about indexing and sequencing\<close>

lemmas opcode_defs =
  LDI_def PRN_def MUL_def HLT_def PUSH_def POP_def CALL_def RET_def ADD_def CMP_def
  JMP_def JEQ_def JNE_def

lemma getitem_Inr: "py_index xs i = Some k \<Longrightarrow> getitem xs i = Inr (xs ! k)"
  by (simp add: getitem_def)

lemma setitem_Inr: "py_index xs i = Some k \<Longrightarrow> setitem xs i v = Inr (xs[k := v])"
  by (simp add: setitem_def)

lemma py_index_less: "py_index xs i = Some k \<Longrightarrow> k < length xs"
  by (auto simp: py_index_def split: if_splits)

lemma py_index_update [simp]: "py_index (xs[k := v]) i = py_index xs i"
  by (simp add: py_index_def)

lemma py_index_SP: "length xs = 8 \<Longrightarrow> py_index xs 7 = Some 7"
  by (simp add: py_index_def)

lemma and_one_bit0:
  "((k::int) AND 1 = 1) = bit k 0" "((k::int) AND 1 = 0) = (\<not> bit k 0)"
  by (auto simp: and_one_eq bit_0 mod_2_eq_odd)

lemma ebind_Inl_iff:
  "ebind m f = Inl e \<longleftrightarrow> m = Inl e \<or> (\<exists>v. m = Inr v \<and> f v = Inl e)"
  by (cases m) auto

lemma branchtable_cases:
  "branchtable IR = Some h \<Longrightarrow>
     h = ldi \<or> h = prn \<or> h = mul \<or> h = hlt \<or> h = push \<or> h = pop \<or> h = call \<or>
     h = ret \<or> h = add \<or> h = compare \<or> h = jmp \<or> h = jeq \<or> h = jne"
  by (auto simp: branchtable_def split: if_splits)

section \<open>Dispatch and the effect of single handlers\<close>

lemma step_dispatch:
  "getitem (ram s) (PC s) = Inr IR \<Longrightarrow> branchtable IR = Some h \<Longrightarrow> step s = h s"
  by (simp add: step_def ram_read_def truthy_def)

lemma branchtable_simps:
  "branchtable LDI = Some ldi" "branchtable ADD = Some add" "branchtable MUL = Some mul"
  "branchtable HLT = Some hlt"
  by (simp_all add: branchtable_def opcode_defs)

lemma ldi_result:
  assumes "getitem (ram s) (PC s + 1) = Inr r"
    and "getitem (ram s) (PC s + 2) = Inr v"
    and "py_index (reg s) r = Some i"
  shows "ldi s = Inr (s\<lparr>reg := (reg s)[i := v], PC := PC s + 3\<rparr>)"
  using assms by (simp add: ldi_def ram_read_def setitem_def)

lemma add_result:
  assumes "getitem (ram s) (PC s + 1) = Inr ra"
    and "getitem (ram s) (PC s + 2) = Inr rb"
    and "py_index (reg s) ra = Some i"
    and "py_index (reg s) rb = Some j"
  shows "add s = Inr (s\<lparr>reg := (reg s)[i := reg s ! i + reg s ! j], PC := PC s + 3\<rparr>)"
  using assms by (simp add: add_def alu_def getitem_def setitem_def)

lemma mul_result:
  assumes "getitem (ram s) (PC s + 1) = Inr ra"
    and "getitem (ram s) (PC s + 2) = Inr rb"
    and "py_index (reg s) ra = Some i"
    and "py_index (reg s) rb = Some j"
  shows "mul s = Inr (s\<lparr>reg := (reg s)[i := reg s ! i * reg s ! j], PC := PC s + 3,
           stdout := stdout s @ [str_int (reg s ! i) @ '' * '' @ str_int (reg s ! j) @ '' ='']\<rparr>)"
  using assms by (simp add: mul_def ram_read_def getitem_def setitem_def print_def Let_def)

lemma run_running: "running s \<Longrightarrow> step s = Inr s' \<Longrightarrow> run s = run s'"
  by (subst run.simps) simp

lemma run_halted: "\<not> running s \<Longrightarrow> run s = Some (Inr s)"
  by (subst run.simps) simp

lemma binop_program_run:
  assumes ra: "ra < 8" and rb: "rb < 8" and neq: "ra \<noteq> rb"
    and bt: "branchtable opc = Some h"
    and h: "\<And>s ra rb i j. getitem (ram s) (PC s + 1) = Inr ra \<Longrightarrow>
              getitem (ram s) (PC s + 2) = Inr rb \<Longrightarrow>
              py_index (reg s) ra = Some i \<Longrightarrow> py_index (reg s) rb = Some j \<Longrightarrow>
              \<exists>out. h s = Inr (s\<lparr>reg := (reg s)[i := g (reg s ! i) (reg s ! j)],
                                  PC := PC s + 3, stdout := out\<rparr>)"
  shows "map_option (map_sum id (\<lambda>s. reg s ! ra)) (run_program f (binop_program opc ra rb a b))
         = Some (Inr (g a b))"
proof -
  define R where "R = (replicate 256 (0::int))
     [0 := LDI, 1 := int ra, 2 := a, 3 := LDI, 4 := int rb, 5 := b, 6 := opc, 7 := int ra,
      8 := int rb, 9 := HLT]"
  define s0 where "s0 = init\<lparr>stdout := [''Filename: '' @ f], ram := R\<rparr>"
  have ld: "load f (binop_program opc ra rb a b) init = Inr s0"
    by (simp add: load_def binop_program_def init_def setitem_def py_index_def print_def
        Let_def s0_def R_def)
  have R: "getitem R 0 = Inr LDI" "getitem R 1 = Inr (int ra)" "getitem R 2 = Inr a"
    "getitem R 3 = Inr LDI" "getitem R 4 = Inr (int rb)" "getitem R 5 = Inr b"
    "getitem R 6 = Inr opc" "getitem R 7 = Inr (int ra)" "getitem R 8 = Inr (int rb)"
    "getitem R 9 = Inr HLT"
    by (simp_all add: R_def getitem_def py_index_def)
  have idx: "\<And>xs. length xs = 8 \<Longrightarrow> py_index xs (int ra) = Some ra"
    "\<And>xs. length xs = 8 \<Longrightarrow> py_index xs (int rb) = Some rb"
    using ra rb by (simp_all add: py_index_def)
  define s1 where "s1 = s0\<lparr>reg := (reg s0)[ra := a], PC := 3\<rparr>"
  define s2 where "s2 = s1\<lparr>reg := (reg s1)[rb := b], PC := 6\<rparr>"
  have s0: "ram s0 = R" "PC s0 = 0" "length (reg s0) = 8" "running s0"
    by (simp_all add: s0_def init_def)
  have s1: "ram s1 = R" "PC s1 = 3" "length (reg s1) = 8" "running s1"
    by (simp_all add: s1_def s0)
  have s2: "ram s2 = R" "PC s2 = 6" "length (reg s2) = 8" "running s2"
    "reg s2 ! ra = a" "reg s2 ! rb = b"
    using neq ra rb by (simp_all add: s2_def s1_def s0_def init_def)
  have st0: "step s0 = Inr s1"
    using step_dispatch [of s0 LDI ldi] ldi_result [of s0 "int ra" a ra]
    by (simp add: s0 R idx branchtable_simps s1_def)
  have st1: "step s1 = Inr s2"
    using step_dispatch [of s1 LDI ldi] ldi_result [of s1 "int rb" b rb]
    by (simp add: s1 R idx branchtable_simps s2_def)
  obtain out where hs2: "h s2 = Inr (s2\<lparr>reg := (reg s2)[ra := g a b], PC := 9, stdout := out\<rparr>)"
    using h [of s2 "int ra" "int rb" ra rb] by (auto simp: s2 R idx)
  define s3 where "s3 = s2\<lparr>reg := (reg s2)[ra := g a b], PC := 9, stdout := out\<rparr>"
  have st2: "step s2 = Inr s3"
    using step_dispatch [of s2 opc h] by (simp add: s2 R bt hs2 s3_def)
  have s3: "ram s3 = R" "PC s3 = 9" "running s3" "reg s3 ! ra = g a b"
    using ra by (simp_all add: s3_def s2)
  have st3: "step s3 = Inr (s3\<lparr>running := False, PC := 10\<rparr>)"
    using step_dispatch [of s3 HLT hlt] by (simp add: s3 R branchtable_simps hlt_def)
  have "run s0 = Some (Inr (s3\<lparr>running := False, PC := 10\<rparr>))"
    using run_running [OF s0(4) st0] run_running [OF s1(4) st1] run_running [OF s2(4) st2]
      run_running [OF s3(3) st3] run_halted [of "s3\<lparr>running := False, PC := 10\<rparr>"]
    by simp
  then show ?thesis
    by (simp add: run_program_def ld s3)
qed

section \<open>Arithmetic: ADD and MUL\<close>

text \<open>
  Claim C1, as stated, fails on the code. Registers hold Python integers and neither
  \<open>alu\<close> nor \<open>mul\<close> reduces a result modulo 256: \<open>LDI R0,200; LDI R1,100; ADD R0,R1\<close>
  leaves 300 in \<open>R0\<close> where the claim says 44, and \<open>LDI R0,16; LDI R1,16; MUL R0,R1\<close>
  leaves 256 where the claim says 0.
\<close>

theorem add_mul_wrap_counterexample:
  "map_option (map_sum id reg) (run_program ''p'' [LDI, 0, 200, LDI, 1, 100, ADD, 0, 1, HLT])
     = Some (Inr [300, 100, 0, 0, 0, 0, 0, 255]) \<and>
   (300::int) \<noteq> (200 + 100) mod 256 \<and>
   map_option (map_sum id reg) (run_program ''p'' [LDI, 0, 16, LDI, 1, 16, MUL, 0, 1, HLT])
     = Some (Inr [256, 16, 0, 0, 0, 0, 0, 255]) \<and>
   (256::int) \<noteq> (16 * 16) mod 256"
  by code_simp

text \<open>
  Claim C1, amended. For all values \<open>a\<close> and \<open>b\<close> (in particular all byte values) and
  two distinct registers \<open>ra\<close> and \<open>rb\<close>: after \<open>LDI ra,a; LDI rb,b; ADD ra,rb\<close> the
  destination register holds \<open>a + b\<close>, and after \<open>MUL ra,rb\<close> in place of the \<open>ADD\<close> it
  holds \<open>a * b\<close>, as unbounded integers with no wrap-around.
\<close>

theorem add_mul_unbounded:
  assumes "ra < 8" and "rb < 8" and "ra \<noteq> rb"
  shows "map_option (map_sum id (\<lambda>s. reg s ! ra))
           (run_program f [LDI, int ra, a, LDI, int rb, b, ADD, int ra, int rb, HLT])
         = Some (Inr (a + b)) \<and>
         map_option (map_sum id (\<lambda>s. reg s ! ra))
           (run_program f [LDI, int ra, a, LDI, int rb, b, MUL, int ra, int rb, HLT])
         = Some (Inr (a * b))"
proof -
  have "\<exists>out. add s = Inr (s\<lparr>reg := (reg s)[i := reg s ! i + reg s ! j], PC := PC s + 3,
                             stdout := out\<rparr>)"
    if "getitem (ram s) (PC s + 1) = Inr ra" "getitem (ram s) (PC s + 2) = Inr rb"
      "py_index (reg s) ra = Some i" "py_index (reg s) rb = Some j" for s ra rb i j
    using add_result [OF that] by (intro exI [of _ "stdout s"]) simp
  from binop_program_run [where g = "(+)" and h = add and f = f and a = a and b = b,
      OF assms branchtable_simps(2) this]
  have A: "map_option (map_sum id (\<lambda>s. reg s ! ra))
           (run_program f [LDI, int ra, a, LDI, int rb, b, ADD, int ra, int rb, HLT])
         = Some (Inr (a + b))"
    by (simp add: binop_program_def)
  have "\<exists>out. mul s = Inr (s\<lparr>reg := (reg s)[i := reg s ! i * reg s ! j], PC := PC s + 3,
                             stdout := out\<rparr>)"
    if "getitem (ram s) (PC s + 1) = Inr ra" "getitem (ram s) (PC s + 2) = Inr rb"
      "py_index (reg s) ra = Some i" "py_index (reg s) rb = Some j" for s ra rb i j
    using mul_result [OF that] by blast
  from binop_program_run [where g = "(*)" and h = mul and f = f and a = a and b = b,
      OF assms branchtable_simps(3) this]
  have M: "map_option (map_sum id (\<lambda>s. reg s ! ra))
           (run_program f [LDI, int ra, a, LDI, int rb, b, MUL, int ra, int rb, HLT])
         = Some (Inr (a * b))"
    by (simp add: binop_program_def)
  from A M show ?thesis by simp
qed

text \<open>
  The theorem of C1 at \<open>R0 = 200\<close>, \<open>R1 = 100\<close>.
\<close>

theorem add_mul_unbounded_witness:
  "(0::nat) < 8 \<and> (1::nat) < 8 \<and> (0::nat) \<noteq> 1 \<and>
   map_option (map_sum id (\<lambda>s. reg s ! 0))
     (run_program ''p'' [LDI, 0, 200, LDI, 1, 100, ADD, 0, 1, HLT]) = Some (Inr 300) \<and>
   map_option (map_sum id (\<lambda>s. reg s ! 0))
     (run_program ''p'' [LDI, 0, 200, LDI, 1, 100, MUL, 0, 1, HLT]) = Some (Inr 20000)"
  using add_mul_unbounded [of 0 1 "''p''" 200 100] by simp

section \<open>The multiplication program\<close>

text \<open>
  Claim C2, as stated, fails on the code. \<open>mul\<close> itself prints the line \<open>8 * 9 =\<close>
  before \<open>prn\<close> prints \<open>72\<close>, so the output of the run (which follows the line printed
  by \<open>load\<close>) is not the single line \<open>72\<close>.
\<close>

theorem mult_program_one_line_counterexample:
  "map_option (map_sum id stdout)
     (run_program ''mult.ls8'' [LDI, 0, 8, LDI, 1, 9, MUL, 0, 1, PRN, 0, HLT])
   \<noteq> Some (Inr [''Filename: mult.ls8'', ''72''])"
  by code_simp

text \<open>
  Claim C2, amended. Running \<open>LDI R0,8; LDI R1,9; MUL R0,R1; PRN R0; HLT\<close> from a freshly
  constructed machine emits exactly two lines, \<open>8 * 9 =\<close> and then \<open>72\<close>, after the line
  of \<open>load\<close>, and the run ends with \<open>running\<close> false.
\<close>

theorem mult_program_output:
  "map_sum id stdout (load ''mult.ls8'' [LDI, 0, 8, LDI, 1, 9, MUL, 0, 1, PRN, 0, HLT] init)
     = Inr [''Filename: mult.ls8''] \<and>
   map_option (map_sum id stdout)
     (run_program ''mult.ls8'' [LDI, 0, 8, LDI, 1, 9, MUL, 0, 1, PRN, 0, HLT])
     = Some (Inr [''Filename: mult.ls8'', ''8 * 9 ='', ''72'']) \<and>
   map_option (map_sum id running)
     (run_program ''mult.ls8'' [LDI, 0, 8, LDI, 1, 9, MUL, 0, 1, PRN, 0, HLT])
     = Some (Inr False)"
  by code_simp

section \<open>Unknown opcodes\<close>

text \<open>
  Claim C3, as stated, fails on the code: the fault names the opcode but not the program
  counter. A fault raised at address 0 and a fault raised at address 3, both on the opcode
  byte 0, are the same value \<open>KeyError 0\<close>.
\<close>

theorem unknown_opcode_fault_omits_pc:
  "map_sum id PC (load ''p'' [] init) = Inr 0 \<and>
   ebind (load ''p'' [] init) step = Inl (KeyError 0) \<and>
   map_sum id PC (ebind (load ''p'' [LDI, 0, 0] init) step) = Inr 3 \<and>
   ebind (ebind (load ''p'' [LDI, 0, 0] init) step) step = Inl (KeyError 0)"
  by code_simp

text \<open>
  Claim C3, amended. When the run loop fetches an opcode byte \<open>IR\<close> that has no entry
  in the branch table, no handler is executed and the run ends at once with a fatal error
  to the caller that carries the opcode byte (and not the program counter); execution
  never continues past the unrecognized opcode.
\<close>

theorem unknown_opcode_fault:
  assumes "running s"
    and "getitem (ram s) (PC s) = Inr IR"
    and "branchtable IR = None"
  shows "step s = Inl (KeyError IR) \<and> run s = Some (Inl (KeyError IR))"
proof -
  have st: "step s = Inl (KeyError IR)"
    using assms by (simp add: step_def ram_read_def)
  have "run s = Some (Inl (KeyError IR))"
    by (subst run.simps) (simp add: st assms(1))
  with st show ?thesis by simp
qed

text \<open>
  The theorem of C3 on a freshly constructed machine, whose memory holds 0 at address 0.
\<close>

theorem unknown_opcode_fault_witness:
  "running init \<and> getitem (ram init) (PC init) = Inr 0 \<and> branchtable 0 = None \<and>
   step init = Inl (KeyError 0) \<and> run init = Some (Inl (KeyError 0))"
proof -
  have h: "running init" "getitem (ram init) (PC init) = Inr 0" "branchtable 0 = None"
    by (simp_all add: init_def getitem_def py_index_def branchtable_def opcode_defs)
  from unknown_opcode_fault [OF h] h show ?thesis by simp
qed

section \<open>Comparison and conditional jumps\<close>

text \<open>
  Claim C4. \<open>CMP\<close> on two registers that hold equal values sets the flags to 1, so
  the Equal bit (bit 0) is set; on unequal values it leaves the flags byte as it was. In
  both cases an Equal bit that was set stays set. The registers, the memory and the
  3-byte advance of the program counter are as for any \<open>CMP\<close>. The hypotheses say that
  the two operand bytes lie in memory and name registers.
\<close>

theorem cmp_sets_equal_sticky:
  assumes "getitem (ram s) (PC s + 1) = Inr ra"
    and "getitem (ram s) (PC s + 2) = Inr rb"
    and "getitem (reg s) ra = Inr a"
    and "getitem (reg s) rb = Inr b"
  shows "\<exists>s'. compare s = Inr s' \<and>
           (if a = b then FL s' = 1 \<and> bit (FL s') 0 else FL s' = FL s) \<and>
           (bit (FL s) 0 \<longrightarrow> bit (FL s') 0) \<and>
           reg s' = reg s \<and> ram s' = ram s \<and> PC s' = PC s + 3"
  using assms by (simp add: compare_def alu_def)

text \<open>
  The theorem of C4 at the first \<open>CMP\<close> of the sample program (equal operands, flags 0)
  and at the second one (unequal operands, Equal already set).
\<close>

theorem cmp_sets_equal_sticky_witness:
  "getitem (ram at_cmp_equal) (PC at_cmp_equal + 1) = Inr 0 \<and>
   getitem (ram at_cmp_equal) (PC at_cmp_equal + 2) = Inr 1 \<and>
   getitem (reg at_cmp_equal) 0 = Inr 3 \<and>
   getitem (reg at_cmp_equal) 1 = Inr 3 \<and>
   FL at_cmp_equal = 0 \<and>
   (\<exists>s'. compare at_cmp_equal = Inr s' \<and> FL s' = 1 \<and> bit (FL s') 0) \<and>
   getitem (ram at_cmp_unequal) (PC at_cmp_unequal + 1) = Inr 0 \<and>
   getitem (ram at_cmp_unequal) (PC at_cmp_unequal + 2) = Inr 1 \<and>
   getitem (reg at_cmp_unequal) 0 = Inr 3 \<and>
   getitem (reg at_cmp_unequal) 1 = Inr 4 \<and>
   bit (FL at_cmp_unequal) 0 \<and>
   (\<exists>s'. compare at_cmp_unequal = Inr s' \<and> FL s' = FL at_cmp_unequal \<and> bit (FL s') 0)"
proof -
  have e: "getitem (ram at_cmp_equal) (PC at_cmp_equal + 1) = Inr 0"
    "getitem (ram at_cmp_equal) (PC at_cmp_equal + 2) = Inr 1"
    "getitem (reg at_cmp_equal) 0 = Inr 3"
    "getitem (reg at_cmp_equal) 1 = Inr 3"
    by code_simp+
  have u: "getitem (ram at_cmp_unequal) (PC at_cmp_unequal + 1) = Inr 0"
    "getitem (ram at_cmp_unequal) (PC at_cmp_unequal + 2) = Inr 1"
    "getitem (reg at_cmp_unequal) 0 = Inr 3"
    "getitem (reg at_cmp_unequal) 1 = Inr 4"
    by code_simp+
  have fl: "FL at_cmp_equal = 0" "FL at_cmp_unequal = 1"
    by code_simp+
  have "\<exists>s'. compare at_cmp_equal = Inr s' \<and> FL s' = 1 \<and> bit (FL s') 0"
    using cmp_sets_equal_sticky [OF e] by auto
  moreover have "\<exists>s'. compare at_cmp_unequal = Inr s' \<and> FL s' = FL at_cmp_unequal \<and> bit (FL s') 0"
    using cmp_sets_equal_sticky [OF u] fl by auto
  ultimately show ?thesis
    using e u fl by simp
qed

text \<open>
  Claim C5. \<open>JEQ\<close> sets the program counter to the value of the register named by its
  operand when bit 0 of the flags is set and advances it by exactly 2 otherwise; \<open>JNE\<close>
  jumps when bit 0 is clear and advances by exactly 2 otherwise. Nothing else of the state
  changes. The hypotheses say that the operand byte lies in memory and names a register.
\<close>

theorem jeq_jne_branch:
  assumes "getitem (ram s) (PC s + 1) = Inr r"
    and "getitem (reg s) r = Inr target"
  shows "jeq s = Inr (s\<lparr>PC := (if bit (FL s) 0 then target else PC s + 2)\<rparr>) \<and>
         jne s = Inr (s\<lparr>PC := (if bit (FL s) 0 then PC s + 2 else target)\<rparr>)"
  using assms by (simp add: jeq_def jne_def and_one_bit0)

text \<open>
  The theorem of C5 at a jump with the Equal flag set and at one with the flag clear.
\<close>

theorem jeq_jne_branch_witness:
  "getitem (ram at_jeq_set) (PC at_jeq_set + 1) = Inr 0 \<and>
   getitem (reg at_jeq_set) 0 = Inr 3 \<and>
   bit (FL at_jeq_set) 0 \<and> PC at_jeq_set = 15 \<and>
   map_sum id PC (jeq at_jeq_set) = Inr 3 \<and>
   map_sum id PC (jne at_jeq_set) = Inr 17 \<and>
   getitem (ram at_jeq_clear) (PC at_jeq_clear + 1) = Inr 0 \<and>
   getitem (reg at_jeq_clear) 0 = Inr 9 \<and>
   \<not> bit (FL at_jeq_clear) 0 \<and> PC at_jeq_clear = 3 \<and>
   map_sum id PC (jeq at_jeq_clear) = Inr 5 \<and>
   map_sum id PC (jne at_jeq_clear) = Inr 9"
proof -
  have a: "getitem (ram at_jeq_set) (PC at_jeq_set + 1) = Inr 0"
    "getitem (reg at_jeq_set) 0 = Inr 3"
    by code_simp+
  have b: "getitem (ram at_jeq_clear) (PC at_jeq_clear + 1) = Inr 0"
    "getitem (reg at_jeq_clear) 0 = Inr 9"
    by code_simp+
  have v: "FL at_jeq_set = 1" "PC at_jeq_set = 15" "FL at_jeq_clear = 0" "PC at_jeq_clear = 3"
    by code_simp+
  from jeq_jne_branch [OF a] jeq_jne_branch [OF b] a b v show ?thesis
    by simp
qed

section \<open>The stack\<close>

text \<open>
  Claim C6. \<open>CALL\<close> at address \<open>PC s\<close> decrements the stack pointer, writes
  \<open>PC s + 2\<close> to the memory cell it then points to, and sets the program counter to the
  register named by its operand; a later \<open>RET\<close>, from any state \<open>s2\<close> whose stack pointer
  and top-of-stack cell are those left by the \<open>CALL\<close>, sets the program counter to
  \<open>PC s + 2\<close> and the stack pointer to its value before the \<open>CALL\<close>. The hypotheses say
  that the decremented stack pointer indexes memory (cell \<open>k\<close>) and that the operand
  byte, which the handler reads after the push, names a register.
\<close>

theorem call_ret_roundtrip:
  assumes wf: "wf_cpu s"
    and slot: "py_index (ram s) (reg s ! 7 - 1) = Some k"
    and operand: "getitem ((ram s)[k := PC s + 2]) (PC s + 1) = Inr r"
    and target: "py_index (reg s) r = Some j"
  shows "\<exists>s1. call s = Inr s1 \<and> wf_cpu s1 \<and>
           reg s1 ! 7 = reg s ! 7 - 1 \<and>
           getitem (ram s1) (reg s1 ! 7) = Inr (PC s + 2) \<and>
           PC s1 = reg s1 ! j \<and>
           (\<forall>s2. wf_cpu s2 \<and> reg s2 ! 7 = reg s1 ! 7 \<and>
                 getitem (ram s2) (reg s2 ! 7) = getitem (ram s1) (reg s1 ! 7) \<longrightarrow>
              (\<exists>s3. ret s2 = Inr s3 \<and> PC s3 = PC s + 2 \<and> reg s3 ! 7 = reg s ! 7))"
proof -
  let ?reg1 = "(reg s)[7 := reg s ! 7 - 1]"
  let ?ram1 = "(ram s)[k := PC s + 2]"
  let ?s1 = "s\<lparr>ram := ?ram1, reg := ?reg1, PC := ?reg1 ! j\<rparr>"
  have len: "length (reg s) = 8" "SP s = 7" "length (ram s) = 256"
    using wf by (simp_all add: wf_cpu_def)
  have sp: "py_index (reg s) 7 = Some 7"
    using len by (simp add: py_index_SP)
  have k: "k < length (ram s)"
    using slot by (rule py_index_less)
  have c: "call s = Inr ?s1"
    using operand target slot sp len
    by (simp add: call_def getitem_def setitem_def)
  have wf1: "wf_cpu ?s1"
    using len by (simp add: wf_cpu_def)
  have top: "reg ?s1 ! 7 = reg s ! 7 - 1"
    using len by simp
  have cell: "getitem (ram ?s1) (reg ?s1 ! 7) = Inr (PC s + 2)"
    using slot k len by (simp add: getitem_def)
  have returns: "\<exists>s3. ret s2 = Inr s3 \<and> PC s3 = PC s + 2 \<and> reg s3 ! 7 = reg s ! 7"
    if "wf_cpu s2" "reg s2 ! 7 = reg ?s1 ! 7"
      "getitem (ram s2) (reg s2 ! 7) = getitem (ram ?s1) (reg ?s1 ! 7)" for s2
  proof -
    have len2: "length (reg s2) = 8" "SP s2 = 7"
      using that(1) by (simp_all add: wf_cpu_def)
    have "getitem (ram s2) (reg s2 ! 7) = Inr (PC s + 2)"
      using that(3) cell by simp
    moreover have "reg s2 ! 7 = reg s ! 7 - 1"
      using that(2) top by simp
    ultimately show ?thesis
      using len2 by (simp add: ret_def getitem_Inr [OF py_index_SP] setitem_Inr [OF py_index_SP])
  qed
  from c wf1 top cell returns show ?thesis
    by (intro exI [of _ ?s1]) auto
qed

text \<open>
  The theorem of C6 at \<open>CALL R1\<close> of the sample program, with the \<open>RET\<close> executed at
  the call target.
\<close>

theorem call_ret_roundtrip_witness:
  "wf_cpu at_call \<and>
   py_index (ram at_call) (reg at_call ! 7 - 1) = Some 254 \<and>
   getitem ((ram at_call)[254 := PC at_call + 2]) (PC at_call + 1) = Inr 1 \<and>
   py_index (reg at_call) 1 = Some 1 \<and>
   PC at_call = 3 \<and>
   (\<exists>s1 s3. call at_call = Inr s1 \<and> PC s1 = 6 \<and> reg s1 ! 7 = 254 \<and>
      ret s1 = Inr s3 \<and> PC s3 = 5 \<and> reg s3 ! 7 = 255)"
proof -
  have h: "wf_cpu at_call" "py_index (ram at_call) (reg at_call ! 7 - 1) = Some 254"
    "getitem ((ram at_call)[254 := PC at_call + 2]) (PC at_call + 1) = Inr 1"
    "py_index (reg at_call) 1 = Some 1"
    by code_simp+
  have vals: "PC at_call = 3" "reg at_call ! 7 = 255" "reg (projr (call at_call)) ! 1 = 6"
    by code_simp+
  from call_ret_roundtrip [OF h] obtain s1 where
    s1: "call at_call = Inr s1" "wf_cpu s1" "reg s1 ! 7 = reg at_call ! 7 - 1"
      "PC s1 = reg s1 ! 1"
    and imp: "\<forall>s2. wf_cpu s2 \<and> reg s2 ! 7 = reg s1 ! 7 \<and>
                 getitem (ram s2) (reg s2 ! 7) = getitem (ram s1) (reg s1 ! 7) \<longrightarrow>
              (\<exists>s3. ret s2 = Inr s3 \<and> PC s3 = PC at_call + 2 \<and> reg s3 ! 7 = reg at_call ! 7)"
    by blast
  from imp s1(2) obtain s3 where
    "ret s1 = Inr s3" "PC s3 = PC at_call + 2" "reg s3 ! 7 = reg at_call ! 7"
    by blast
  with s1 vals h show ?thesis by auto
qed

text \<open>
  Claim C7. \<open>PUSH r\<close> succeeds when its operand names a register and the decremented
  stack pointer indexes memory; when the next instruction's operand byte is \<open>r\<close> again,
  the \<open>POP\<close> that follows succeeds and leaves the whole register file as it was before
  the \<open>PUSH\<close>: register \<open>r\<close> is unchanged and the stack pointer (register 7) is
  restored.
\<close>

theorem push_pop_roundtrip:
  assumes wf: "wf_cpu s"
    and operand: "getitem (ram s) (PC s + 1) = Inr r"
    and register: "py_index (reg s) r = Some j"
    and slot: "py_index (ram s) (reg s ! 7 - 1) = Some k"
  shows "\<exists>s1. push s = Inr s1 \<and> reg s1 ! 7 = reg s ! 7 - 1 \<and>
           (getitem (ram s1) (PC s1 + 1) = Inr r \<longrightarrow>
              (\<exists>s2. pop s1 = Inr s2 \<and> reg s2 = reg s \<and> reg s2 ! j = reg s ! j \<and>
                    reg s2 ! 7 = reg s ! 7 \<and> PC s2 = PC s + 4))"
proof -
  let ?reg1 = "(reg s)[7 := reg s ! 7 - 1]"
  let ?v = "?reg1 ! j"
  let ?s1 = "s\<lparr>ram := (ram s)[k := ?v], reg := ?reg1, PC := PC s + 2\<rparr>"
  have len: "length (reg s) = 8" "SP s = 7"
    using wf by (simp_all add: wf_cpu_def)
  have sp: "py_index (reg s) 7 = Some 7"
    using len by (simp add: py_index_SP)
  have k: "k < length (ram s)"
    using slot by (rule py_index_less)
  have j: "j < length (reg s)"
    using register by (rule py_index_less)
  have p: "push s = Inr ?s1"
    using operand register slot sp len
    by (simp add: push_def getitem_def setitem_def)
  have top: "reg ?s1 ! 7 = reg s ! 7 - 1"
    using len by simp
  have "pop ?s1 = Inr (s\<lparr>ram := (ram s)[k := ?v], reg := reg s, PC := PC s + 4\<rparr>)"
    if "getitem (ram ?s1) (PC ?s1 + 1) = Inr r"
  proof -
    have a: "?reg1[j := ?v] = ?reg1"
      by (rule list_update_id)
    have b: "?reg1[7 := ?reg1 ! 7 + 1] = reg s"
      using len by (simp add: list_update_same_conv)
    show ?thesis
      using that register slot sp len k a b
      by (simp add: pop_def getitem_def setitem_def)
  qed
  with p top show ?thesis by auto
qed

text \<open>
  The theorem of C7 at \<open>PUSH R0\<close> of the sample program, followed by \<open>POP R0\<close>.
\<close>

theorem push_pop_roundtrip_witness:
  "wf_cpu at_push \<and>
   getitem (ram at_push) (PC at_push + 1) = Inr 0 \<and>
   py_index (reg at_push) 0 = Some 0 \<and>
   py_index (ram at_push) (reg at_push ! 7 - 1) = Some 254 \<and>
   getitem (ram (projr (push at_push))) (PC (projr (push at_push)) + 1) = Inr 0 \<and>
   (\<exists>s1 s2. push at_push = Inr s1 \<and> pop s1 = Inr s2 \<and> reg s2 = reg at_push \<and>
      reg s2 ! 0 = 42 \<and> reg s2 ! 7 = 255 \<and> PC s2 = PC at_push + 4)"
proof -
  have h: "wf_cpu at_push" "getitem (ram at_push) (PC at_push + 1) = Inr 0"
    "py_index (reg at_push) 0 = Some 0"
    "py_index (ram at_push) (reg at_push ! 7 - 1) = Some 254"
    by code_simp+
  have nxt: "getitem (ram (projr (push at_push))) (PC (projr (push at_push)) + 1) = Inr 0"
    by code_simp
  have vals: "reg at_push ! 0 = 42" "reg at_push ! 7 = 255"
    by code_simp+
  from push_pop_roundtrip [OF h] obtain s1 where
    s1: "push at_push = Inr s1"
    and imp: "getitem (ram s1) (PC s1 + 1) = Inr 0 \<longrightarrow>
      (\<exists>s2. pop s1 = Inr s2 \<and> reg s2 = reg at_push \<and> reg s2 ! 0 = reg at_push ! 0 \<and>
            reg s2 ! 7 = reg at_push ! 7 \<and> PC s2 = PC at_push + 4)"
    by blast
  from s1 nxt have "getitem (ram s1) (PC s1 + 1) = Inr 0" by simp
  with imp s1 vals h nxt show ?thesis by auto
qed

section \<open>The program counter\<close>

text \<open>
  Claim C8, as stated, fails on the code: no handler bounds the program counter. After
  \<open>LDI R0,200; ADD R0,R0; JMP R0\<close> the machine is still running and its program counter
  is 400; the next fetch then ends the run with an index error.
\<close>

theorem pc_leaves_memory_counterexample:
  "map_sum id PC
     (ebind (ebind (ebind (load ''p'' [LDI, 0, 200, ADD, 0, 0, JMP, 0] init) step) step) step)
     = Inr 400 \<and>
   map_sum id running
     (ebind (ebind (ebind (load ''p'' [LDI, 0, 200, ADD, 0, 0, JMP, 0] init) step) step) step)
     = Inr True \<and>
   run_program ''p'' [LDI, 0, 200, ADD, 0, 0, JMP, 0] = Some (Inl IndexError)"
  by code_simp

text \<open>
  Claim C8, amended. The handlers do not keep the program counter inside the memory;
  when a running machine fetches at a program counter that is not a valid index of the
  256-cell memory (256 or more, or below -256, since a negative index counts from the
  end), the fetch raises an index error and the run ends there, so no instruction is
  executed from outside the memory.
\<close>

theorem fetch_outside_memory:
  assumes "length (ram s) = 256"
    and "running s"
    and "PC s < - 256 \<or> 256 \<le> PC s"
  shows "step s = Inl IndexError \<and> run s = Some (Inl IndexError)"
proof -
  have st: "step s = Inl IndexError"
    using assms by (auto simp: step_def ram_read_def getitem_def py_index_def)
  have "run s = Some (Inl IndexError)"
    by (subst run.simps) (simp add: st assms(2))
  with st show ?thesis by simp
qed

text \<open>
  The theorem of C8 on the state reached by the jump to 400.
\<close>

theorem fetch_outside_memory_witness:
  "length (ram at_jump) = 256 \<and> running at_jump \<and> PC at_jump = 400 \<and>
   step at_jump = Inl IndexError \<and> run at_jump = Some (Inl IndexError)"
proof -
  have h: "length (ram at_jump) = 256" "running at_jump" "PC at_jump = 400"
    by code_simp+
  then have "PC at_jump < - 256 \<or> 256 \<le> PC at_jump" by simp
  from fetch_outside_memory [OF h(1) h(2) this] h show ?thesis by simp
qed

section \<open>The ALU guard\<close>

lemma getitem_not_Exception: "getitem xs i \<noteq> Inl (Exception m)"
  by (simp add: getitem_def split: option.splits)

lemma setitem_not_Exception: "setitem xs i v \<noteq> Inl (Exception m)"
  by (simp add: setitem_def split: option.splits)

lemma alu_ADD_CMP_not_Exception:
  "alu ''ADD'' a b s \<noteq> Inl (Exception m)" "alu ''CMP'' a b s \<noteq> Inl (Exception m)"
  by (auto simp: alu_def ebind_Inl_iff getitem_not_Exception setitem_not_Exception)

lemma handler_not_Exception:
  assumes "branchtable IR = Some h"
  shows "h s \<noteq> Inl (Exception m)"
  using branchtable_cases [OF assms]
  by (auto simp: ldi_def prn_def mul_def hlt_def push_def pop_def call_def ret_def add_def
      compare_def jmp_def jeq_def jne_def ram_read_def Let_def print_def ebind_Inl_iff
      getitem_not_Exception setitem_not_Exception alu_ADD_CMP_not_Exception
      split: if_splits)

lemma step_not_Exception: "step s \<noteq> Inl (Exception m)"
  by (auto simp: step_def ebind_Inl_iff ram_read_def getitem_not_Exception truthy_def
      handler_not_Exception split: option.splits)

lemma run_not_Exception:
  assumes "run s = Some y"
  shows "y \<noteq> Inl (Exception m)"
proof (rule run.raw_induct [where P = "\<lambda>s y. y \<noteq> Inl (Exception m)", OF _ assms])
  fix run' :: "cpu \<Rightarrow> (error + cpu) option" and s y
  assume IH: "\<And>x y. run' x = Some y \<Longrightarrow> y \<noteq> Inl (Exception m)"
    and body: "(if running s then case step s of Inl e \<Rightarrow> Some (Inl e) | Inr s' \<Rightarrow> run' s'
                else Some (Inr s)) = Some y"
  show "y \<noteq> Inl (Exception m)"
  proof (cases "running s")
    case False
    with body show ?thesis by auto
  next
    case True
    show ?thesis
    proof (cases "step s")
      case (Inl e)
      with True body step_not_Exception [of s m] show ?thesis by auto
    next
      case (Inr s')
      with True body have "run' s' = Some y" by simp
      then show ?thesis by (rule IH)
    qed
  qed
qed

text \<open>
  Claim C9. The only calls of \<open>alu\<close> are the ones in \<open>add\<close> (with \<open>''ADD''\<close>) and in
  \<open>compare\<close> (with \<open>''CMP''\<close>), so from any machine state neither one pass of the loop
  body nor a whole run ends with the exception \<open>Unsupported ALU operation\<close> (nor with
  any other \<open>Exception\<close> value).
\<close>

theorem alu_unsupported_unreachable:
  "run s \<noteq> Some (Inl (Exception m)) \<and> step s \<noteq> Inl (Exception m)"
  using run_not_Exception [of s "Inl (Exception m)" m] step_not_Exception [of s m] by blast

section \<open>Register operands\<close>

text \<open>
  Claim C10. Register operand bytes are used as list indices without any check or
  mask: the programs \<open>LDI 8,5\<close>, \<open>PUSH 8\<close> and \<open>JMP 8\<close> each end the run with an
  index error, not with a reported fault and not with an access to register 0.
\<close>

theorem register_operand_unchecked:
  "run_program ''p'' [LDI, 8, 5, HLT] = Some (Inl IndexError) \<and>
   run_program ''p'' [PUSH, 8, HLT] = Some (Inl IndexError) \<and>
   run_program ''p'' [JMP, 8] = Some (Inl IndexError)"
  by code_simp

end
